theory Spec2Isabelle
  imports Complex_Main "HOL-Library.Char_ord" "HOL-Library.List_Lexorder"
begin

section \<open>Exceptions\<close>

text \<open>
  The Python exceptions that the acquisition service (\<^verbatim>\<open>background.py\<close>) can meet.
  Every \<^verbatim>\<open>raise\<close> of the source or of a library call is a value \<open>Inl e\<close> of a sum type;
  a normal return is \<open>Inr v\<close>.
\<close>

datatype exn =
    IndexError
  | KeyError string
  | TypeError
  | AttributeError
  | ValueError
  | JSONDecodeError
  | ClientError
  | OperationalError
  | OverflowError

section \<open>Date conversion and geometry utilities\<close>

subsection \<open>\<^verbatim>\<open>str.split(sep)\<close> and list indexing\<close>

text \<open>
  \<^verbatim>\<open>s.split('/')\<close> with an explicit separator cuts at every occurrence of the separator and
  keeps empty pieces: the result has one more element than there are separators, and
  \<^verbatim>\<open>''.split('/')\<close> is \<^verbatim>\<open>['']\<close>. \<open>split_from\<close> scans the string with the current
  piece as accumulator. The separator is an ASCII character, which never occurs inside the
  encoding of another code point, so cutting a byte string cuts at the same places.
\<close>

fun split_from :: "char \<Rightarrow> string \<Rightarrow> string \<Rightarrow> string list" where
  "split_from sep cur [] = [cur]"
| "split_from sep cur (c # cs) =
     (if c = sep then cur # split_from sep [] cs else split_from sep (cur @ [c]) cs)"

definition py_split :: "char \<Rightarrow> string \<Rightarrow> string list" where
  "py_split sep s = split_from sep [] s"

text \<open>\<^verbatim>\<open>xs[i]\<close> for a non-negative literal index: IndexError when out of range.\<close>

definition py_index :: "'a list \<Rightarrow> nat \<Rightarrow> exn + 'a" where
  "py_index xs i = (if i < length xs then Inr (xs ! i) else Inl IndexError)"

subsection \<open>\<^verbatim>\<open>convert_to_rfc3339\<close>\<close>

definition extra_part :: string where
  "extra_part = ''T00:00:00Z''"

text \<open>
  \<^verbatim>\<open>
  dates = date_str.split('/')
  extra_part = 'T00:00:00Z'
  return f'{dates[0]}{extra_part}/{dates[1]}{extra_part}'
  \<close>
  The f-string reads \<^verbatim>\<open>dates[0]\<close> first and \<^verbatim>\<open>dates[1]\<close> second.
\<close>

definition convert_to_rfc3339 :: "string \<Rightarrow> exn + string" where
  "convert_to_rfc3339 date_str =
     (let dates = py_split CHR ''/'' date_str in
      case py_index dates 0 of
        Inl e \<Rightarrow> Inl e
      | Inr d0 \<Rightarrow>
          (case py_index dates 1 of
             Inl e \<Rightarrow> Inl e
           | Inr d1 \<Rightarrow> Inr (d0 @ extra_part @ ''/'' @ d1 @ extra_part)))"

text \<open>
  What the specification calls a well-formed full range: exactly two timestamps joined by
  one \<open>/\<close>, each a non-empty date part followed by the midnight marker. This predicate is
  the specification's notion, used only to state what a failed conversion is.
\<close>

definition is_stamp :: "string \<Rightarrow> bool" where
  "is_stamp t = (length extra_part < length t \<and>
                 drop (length t - length extra_part) t = extra_part)"

definition well_formed_range :: "string \<Rightarrow> bool" where
  "well_formed_range r =
     (case py_split CHR ''/'' r of
        [t1, t2] \<Rightarrow> is_stamp t1 \<and> is_stamp t2
      | _ \<Rightarrow> False)"

subsection \<open>\<^verbatim>\<open>build_square\<close>\<close>

text \<open>
  The GeoJSON dictionary \<^verbatim>\<open>{"type": "Polygon", "coordinates": [[c1, c2, c3, c4, c1]]}\<close>.
  A coordinate pair is the two-element list \<^verbatim>\<open>[x, y]\<close> of the source. The number type is
  a parameter: the function only adds and subtracts, so the model holds for whatever
  \<open>+\<close> and \<open>-\<close> the numbers carry (the source's are Python floats).
\<close>

record 'n geometry =
  gtype :: string
  coordinates :: "'n list list list"

definition build_square :: "'n::{plus,minus} \<Rightarrow> 'n \<Rightarrow> 'n \<Rightarrow> 'n geometry" where
  "build_square lon lat delta =
     (let c1 = [lon + delta, lat + delta];
          c2 = [lon + delta, lat - delta];
          c3 = [lon - delta, lat - delta];
          c4 = [lon - delta, lat + delta]
      in \<lparr>gtype = ''Polygon'', coordinates = [[c1, c2, c3, c4, c1]]\<rparr>)"

section \<open>The values the service handles\<close>

subsection \<open>JSON documents\<close>

text \<open>
  What \<^verbatim>\<open>json.loads\<close> and \<^verbatim>\<open>response.json()\<close> return: \<^verbatim>\<open>None\<close>, a bool, a number, a
  string, a list or a dict. A dict is the list of its items (keys distinct, as a Python
  dict has them). The number type \<open>'n\<close> stands for Python's int and float values.
\<close>

datatype 'n json =
    JNull
  | JBool bool
  | JNum 'n
  | JStr string
  | JArr "'n json list"
  | JObj "(string \<times> 'n json) list"

subsection \<open>Timestamps\<close>

text \<open>
  A \<^verbatim>\<open>datetime\<close> value: the day as its proleptic Gregorian ordinal (\<^verbatim>\<open>toordinal()\<close>), and
  the time of day. The days of \<^verbatim>\<open>datetime\<close> run from ordinal 1 (0001-01-01) to ordinal
  3652059 (9999-12-31).
\<close>

record datetime =
  ordinal :: int
  second_of_day :: nat
  microsecond :: nat

definition max_ordinal :: int where
  "max_ordinal = 3652059"

text \<open>
  \<^verbatim>\<open>date + timedelta(days=n)\<close>: the day moves by \<open>n\<close> and the time of day is kept; a result
  outside the days of \<^verbatim>\<open>datetime\<close> raises OverflowError.
\<close>

definition add_days :: "datetime \<Rightarrow> int \<Rightarrow> exn + datetime" where
  "add_days date n =
     (if 1 \<le> ordinal date + n \<and> ordinal date + n \<le> max_ordinal
      then Inr (date\<lparr>ordinal := ordinal date + n\<rparr>)
      else Inl OverflowError)"

subsection \<open>Library functions\<close>

text \<open>
  The functions of the Python library that the source calls and whose code is not part of
  the repository are parameters of the model:
  \<^item> \<open>json_loads\<close>: \<^verbatim>\<open>json.loads\<close>, raising on text that is not JSON;
  \<^item> \<open>py_int\<close>: \<^verbatim>\<open>int(v)\<close>, raising on a value that is not convertible;
  \<^item> \<open>num_of_bool\<close>, \<open>num_truthy\<close>: a bool used as a number, and the truth value of a number;
  \<^item> \<open>str_other\<close>: \<^verbatim>\<open>str(v)\<close> of a value that is not a string, inside an f-string;
  \<^item> \<open>float_0_004\<close>: the float literal \<^verbatim>\<open>0.004\<close>;
  \<^item> \<open>strptime\<close>: \<^verbatim>\<open>datetime.strptime(s, "%Y-%m-%d %H:%M:%S")\<close>, raising ValueError on text
    of another shape;
  \<^item> \<open>fmt_day\<close>: \<^verbatim>\<open>strftime("%Y-%m-%d")\<close>, which depends on the day only;
  \<^item> \<open>fmt_time\<close>: \<^verbatim>\<open>strftime("%H:%M:%S")\<close>, which depends on the second of the day only.
  \<^verbatim>\<open>json.dumps\<close> is not a parameter: a cache entry written as \<^verbatim>\<open>json.dumps(v)\<close> is kept in
  the model as the document \<open>v\<close> itself, \<^verbatim>\<open>json.dumps(None)\<close> being \<open>JNull\<close>.
\<close>

record 'n lib =
  json_loads :: "string \<Rightarrow> exn + 'n json"
  py_int :: "'n json \<Rightarrow> exn + int"
  num_of_bool :: "bool \<Rightarrow> 'n"
  num_truthy :: "'n \<Rightarrow> bool"
  str_other :: "'n json \<Rightarrow> string"
  float_0_004 :: 'n
  strptime :: "string \<Rightarrow> exn + datetime"
  fmt_day :: "int \<Rightarrow> string"
  fmt_time :: "nat \<Rightarrow> string"

text \<open>The truth value of a JSON document in an \<^verbatim>\<open>if\<close>.\<close>

fun truthy :: "'n lib \<Rightarrow> 'n json \<Rightarrow> bool" where
  "truthy L JNull = False"
| "truthy L (JBool b) = b"
| "truthy L (JNum x) = num_truthy L x"
| "truthy L (JStr s) = (s \<noteq> [])"
| "truthy L (JArr xs) = (xs \<noteq> [])"
| "truthy L (JObj kvs) = (kvs \<noteq> [])"

text \<open>\<^verbatim>\<open>v[k]\<close> with a string key: KeyError on a dict without the key, TypeError on any
  value that is not a dict.\<close>

definition subscript :: "'n json \<Rightarrow> string \<Rightarrow> exn + 'n json" where
  "subscript v k =
     (case v of
        JObj kvs \<Rightarrow> (case map_of kvs k of None \<Rightarrow> Inl (KeyError k) | Some x \<Rightarrow> Inr x)
      | _ \<Rightarrow> Inl TypeError)"

text \<open>\<^verbatim>\<open>v.get(k)\<close>: \<^verbatim>\<open>None\<close> on a dict without the key, AttributeError on a value that
  has no \<^verbatim>\<open>get\<close>.\<close>

definition dict_get :: "'n json \<Rightarrow> string \<Rightarrow> exn + 'n json option" where
  "dict_get v k = (case v of JObj kvs \<Rightarrow> Inr (map_of kvs k) | _ \<Rightarrow> Inl AttributeError)"

text \<open>A value as the left operand of \<^verbatim>\<open>+ delta\<close> and \<^verbatim>\<open>- delta\<close> with a float \<^verbatim>\<open>delta\<close>.\<close>

definition as_num :: "'n lib \<Rightarrow> 'n json \<Rightarrow> exn + 'n" where
  "as_num L v =
     (case v of JNum x \<Rightarrow> Inr x | JBool b \<Rightarrow> Inr (num_of_bool L b) | _ \<Rightarrow> Inl TypeError)"

text \<open>\<^verbatim>\<open>f"{v}"\<close>.\<close>

definition format_value :: "'n lib \<Rightarrow> 'n json \<Rightarrow> string" where
  "format_value L v = (case v of JStr s \<Rightarrow> s | _ \<Rightarrow> str_other L v)"

section \<open>The world outside the process\<close>

text \<open>The query parameters of a GET to the acquisition-plan API, and the JSON body of a POST
  to the catalog search.\<close>

record params =
  p_api_key :: "string option"
  p_satellites :: string
  p_datetime :: string

record 'n payload =
  intersects :: "'n geometry"
  datetime_range :: string
  cloud_gte :: int
  cloud_lte :: int
  collections :: "string list"

text \<open>
  How an HTTP call ends: a response with its status and what \<^verbatim>\<open>response.json()\<close> gives
  (a document, or an exception when the body is not JSON), or an exception of the client
  (connection refused, timeout, ...).
\<close>

datatype 'n http_outcome =
    Response nat "exn + 'n json"
  | Failed exn

text \<open>
  The answers of the outside world during one cycle: the API key of the process
  environment, the two HTTP services, whether the database can be read for a satellite and
  written for a row (\<open>Some e\<close>: the attempt raises \<open>e\<close>), and the clock read when the start of
  a satellite's window is resolved.
\<close>

record 'n env =
  API_KEY :: "string option"
  http_get :: "params \<Rightarrow> 'n http_outcome"
  http_post :: "'n payload \<Rightarrow> 'n http_outcome"
  db_read_error :: "string \<Rightarrow> exn option"
  db_write_error :: "string \<Rightarrow> string \<Rightarrow> exn option"
  now :: "string \<Rightarrow> datetime"

text \<open>One constructor for each \<^verbatim>\<open>logging\<close> call of the source, with the values it formats.\<close>

datatype 'n log_entry =
    ErrLastDate string exn
  | InfoSaved string string
  | InfoNoData string string
  | ErrStatus nat string string
  | ErrRequest string exn
  | InfoSavedToDb string string
  | ErrSaveToDb string exn
  | ErrStac nat
  | ErrRetrieve "'n json" "'n json" exn
  | InfoProcessed "'n json"
  | ErrQueue exn

text \<open>
  The stores the two loops change: the Redis list \<^verbatim>\<open>request_queue\<close>, the Redis keys with
  their value and expiry in seconds, the rows \<open>(satellite, has_info_date)\<close> of the table
  \<^verbatim>\<open>api_acqusitiondatesinfo\<close>, the log, and the GET requests sent so far.
\<close>

record 'n world =
  request_queue :: "string list"
  cache :: "string \<rightharpoonup> ('n json \<times> nat)"
  progress :: "(string \<times> string) list"
  log :: "'n log_entry list"
  gets :: "params list"

definition logging :: "'n log_entry \<Rightarrow> 'n world \<Rightarrow> 'n world" where
  "logging m w = w\<lparr>log := log w @ [m]\<rparr>"

text \<open>\<^verbatim>\<open>redis.set(key, json.dumps(v), ex=ttl)\<close>.\<close>

definition redis_set :: "string \<Rightarrow> 'n json \<Rightarrow> nat \<Rightarrow> 'n world \<Rightarrow> 'n world" where
  "redis_set key v ttl w = w\<lparr>cache := (cache w)(key \<mapsto> (v, ttl))\<rparr>"

section \<open>Progress store\<close>

definition SATELLITES :: "string list" where
  "SATELLITES = [''Landsat-8'', ''Landsat-9'']"

text \<open>
  \<^verbatim>\<open>SELECT has_info_date ... WHERE satellite = %s ORDER BY has_info_date DESC LIMIT 1\<close>
  followed by \<^verbatim>\<open>fetchone()\<close>: the greatest value of the column among the satellite's rows,
  \<open>None\<close> when it has no row. The column holds the text written by \<open>save_to_db\<close>; text is
  compared character by character.
\<close>

definition select_last :: "(string \<times> string) list \<Rightarrow> string \<Rightarrow> string option" where
  "select_last rows satellite =
     (case map snd (filter (\<lambda>r. fst r = satellite) rows) of
        [] \<Rightarrow> None
      | d # ds \<Rightarrow> Some (fold max ds d))"

text \<open>
  \<open>get_the_last_date\<close>: every exception of the \<^verbatim>\<open>try\<close> block (opening either connection,
  running the query) is logged and turned into \<^verbatim>\<open>None\<close>.
\<close>

definition get_the_last_date :: "'n env \<Rightarrow> string \<Rightarrow> 'n world \<Rightarrow> string option \<times> 'n world" where
  "get_the_last_date E satellite w =
     (case db_read_error E satellite of
        Some e \<Rightarrow> (None, logging (ErrLastDate satellite e) w)
      | None \<Rightarrow> (select_last (progress w) satellite, w))"

text \<open>
  \<open>save_to_db\<close>: one row \<open>(satellite, date_row)\<close> is inserted, \<open>date_row\<close> (\<^verbatim>\<open>date_\<close> in
  the source) being the cursor formatted
  with \<^verbatim>\<open>"%Y-%m-%d %H:%M:%S"\<close>; an exception is logged and the row is not written.
\<close>

definition save_to_db :: "'n lib \<Rightarrow> 'n env \<Rightarrow> 'n json \<Rightarrow> datetime \<Rightarrow> string \<Rightarrow> 'n world \<Rightarrow> 'n world" where
  "save_to_db L E features date satellite w =
     (let date_row = fmt_day L (ordinal date) @ '' '' @ fmt_time L (second_of_day date) in
      case db_write_error E satellite date_row of
        Some e \<Rightarrow> logging (ErrSaveToDb satellite e) w
      | None \<Rightarrow>
          logging (InfoSavedToDb satellite date_row)
            (w\<lparr>progress := progress w @ [(satellite, date_row)]\<rparr>))"

section \<open>Acquisition scheduler\<close>

text \<open>Lines 68 to 72 of \<open>fetch_and_save_data\<close>: where a satellite's window starts. The
  \<^verbatim>\<open>strptime\<close> call is outside every \<^verbatim>\<open>try\<close>, so its exception leaves the function.\<close>

definition resolve_start :: "'n lib \<Rightarrow> 'n env \<Rightarrow> string \<Rightarrow> 'n world \<Rightarrow> (exn + datetime) \<times> 'n world" where
  "resolve_start L E satellite w =
     (case get_the_last_date E satellite w of
        (None, w1) \<Rightarrow> (Inr (now E satellite), w1)
      | (Some date, w1) \<Rightarrow>
          (if date = [] then (Inr (now E satellite), w1) else (strptime L date, w1)))"

definition feature_ttl :: nat where
  "feature_ttl = 604800 * 3"

text \<open>The body of the inner loop after the cursor has been advanced (lines 76 to 98): one
  probe of the acquisition-plan API for \<open>satellite\<close> at the cursor \<open>date\<close>.\<close>

definition probe :: "'n lib \<Rightarrow> 'n env \<Rightarrow> string \<Rightarrow> datetime \<Rightarrow> 'n world \<Rightarrow> 'n world" where
  "probe L E satellite date w =
     (let date_str = fmt_day L (ordinal date) @ ''T00:00:00Z'';
          needed_date = fmt_day L (ordinal date);
          ps = \<lparr>p_api_key = API_KEY E, p_satellites = satellite, p_datetime = date_str\<rparr>;
          w0 = w\<lparr>gets := gets w @ [ps]\<rparr>
      in case http_get E ps of
           Failed e \<Rightarrow> logging (ErrRequest satellite e) w0
         | Response status body \<Rightarrow>
             (if status = 200 then
                (case body of
                   Inl e \<Rightarrow> logging (ErrRequest satellite e) w0
                 | Inr data \<Rightarrow>
                     (case dict_get data ''features'' of
                        Inl e \<Rightarrow> logging (ErrRequest satellite e) w0
                      | Inr None \<Rightarrow> logging (InfoNoData satellite needed_date) w0
                      | Inr (Some features) \<Rightarrow>
                          (if truthy L features then
                             logging (InfoSaved satellite needed_date)
                               (redis_set needed_date features feature_ttl
                                  (save_to_db L E features date satellite w0))
                           else logging (InfoNoData satellite needed_date) w0)))
              else logging (ErrStatus status satellite date_str) w0))"

text \<open>
  \<^verbatim>\<open>for _ in range(n): date += timedelta(days=1); ...\<close> The addition is outside the
  \<^verbatim>\<open>try\<close> of the loop body, so its OverflowError ends the loop and leaves the function; the
  probes sent before it stay sent.
\<close>

fun probe_loop ::
  "nat \<Rightarrow> 'n lib \<Rightarrow> 'n env \<Rightarrow> string \<Rightarrow> datetime \<Rightarrow> 'n world \<Rightarrow> (exn + datetime) \<times> 'n world" where
  "probe_loop 0 L E satellite date w = (Inr date, w)"
| "probe_loop (Suc n) L E satellite date w =
     (case add_days date 1 of
        Inl e \<Rightarrow> (Inl e, w)
      | Inr date' \<Rightarrow> probe_loop n L E satellite date' (probe L E satellite date' w))"

text \<open>The body of \<^verbatim>\<open>for satellite in SATELLITES\<close>: \<open>Some e\<close> when the exception \<open>e\<close> leaves it.\<close>

definition satellite_window :: "'n lib \<Rightarrow> 'n env \<Rightarrow> string \<Rightarrow> 'n world \<Rightarrow> exn option \<times> 'n world" where
  "satellite_window L E satellite w =
     (case resolve_start L E satellite w of
        (Inl e, w1) \<Rightarrow> (Some e, w1)
      | (Inr date, w1) \<Rightarrow>
          (case probe_loop 100 L E satellite date w1 of
             (Inl e, w2) \<Rightarrow> (Some e, w2)
           | (Inr date', w2) \<Rightarrow> (None, w2)))"

fun sweep :: "'n lib \<Rightarrow> 'n env \<Rightarrow> string list \<Rightarrow> 'n world \<Rightarrow> exn option \<times> 'n world" where
  "sweep L E [] w = (None, w)"
| "sweep L E (satellite # rest) w =
     (case satellite_window L E satellite w of
        (Some e, w1) \<Rightarrow> (Some e, w1)
      | (None, w1) \<Rightarrow> sweep L E rest w1)"

text \<open>
  \<open>fetch_and_save_data\<close>: \<^verbatim>\<open>while True\<close> around one sweep and a sleep of three hours. The
  loop never ends by itself; the model runs one cycle for each element of the list of the
  outside world's answers, and stops at the first exception that leaves a cycle.
\<close>

fun fetch_and_save_data :: "'n lib \<Rightarrow> 'n env list \<Rightarrow> 'n world \<Rightarrow> exn option \<times> 'n world" where
  "fetch_and_save_data L [] w = (None, w)"
| "fetch_and_save_data L (E # Es) w =
     (case sweep L E SATELLITES w of
        (Some e, w1) \<Rightarrow> (Some e, w1)
      | (None, w1) \<Rightarrow> fetch_and_save_data L Es w1)"

section \<open>Request queue worker\<close>

text \<open>The value \<^verbatim>\<open>{'message': 'not found'}\<close>.\<close>

definition not_found :: "'n json" where
  "not_found = JObj [(''message'', JStr ''not found'')]"

text \<open>
  Lines 185 to 197 of \<open>get_landsat_items\<close>: the polygon around the point and the body of
  the search. They run before the \<^verbatim>\<open>try\<close>, so their exceptions leave the function:
  TypeError when \<^verbatim>\<open>lon\<close> or \<^verbatim>\<open>lat\<close> is not a number, AttributeError when
  \<^verbatim>\<open>time_range\<close> is not a string, IndexError when it has no \<open>/\<close>.
\<close>

definition build_payload ::
  "'n::{plus,minus} lib \<Rightarrow> 'n json \<Rightarrow> 'n json \<Rightarrow> 'n json \<Rightarrow> int \<Rightarrow> int \<Rightarrow> exn + 'n payload" where
  "build_payload L lon lat time_range min_cloud max_cloud =
     (case as_num L lon of
        Inl e \<Rightarrow> Inl e
      | Inr x \<Rightarrow>
     (case as_num L lat of
        Inl e \<Rightarrow> Inl e
      | Inr y \<Rightarrow>
     (let geometry = build_square x y (float_0_004 L) in
      case (case time_range of JStr s \<Rightarrow> convert_to_rfc3339 s | _ \<Rightarrow> Inl AttributeError) of
        Inl e \<Rightarrow> Inl e
      | Inr full_range \<Rightarrow>
          Inr \<lparr>intersects = geometry, datetime_range = full_range,
               cloud_gte = min_cloud, cloud_lte = max_cloud,
               collections = [''landsat-c2l2-sr'']\<rparr>)))"

text \<open>
  \<open>get_landsat_items\<close>: every exception of the request itself (the client's, the body's
  decoding, the missing key \<^verbatim>\<open>features\<close>) is logged and the function returns \<^verbatim>\<open>None\<close>, as
  it does on a status other than 200.
\<close>

definition get_landsat_items ::
  "'n::{plus,minus} lib \<Rightarrow> 'n env \<Rightarrow> 'n json \<Rightarrow> 'n json \<Rightarrow> 'n json \<Rightarrow> int \<Rightarrow> int \<Rightarrow> 'n world
     \<Rightarrow> (exn + 'n json option) \<times> 'n world" where
  "get_landsat_items L E lon lat time_range min_cloud max_cloud w =
     (case build_payload L lon lat time_range min_cloud max_cloud of
        Inl e \<Rightarrow> (Inl e, w)
      | Inr payload \<Rightarrow>
          (case http_post E payload of
             Failed e \<Rightarrow> (Inr None, logging (ErrRetrieve lon lat e) w)
           | Response status body \<Rightarrow>
               (if status = 200 then
                  (case body of
                     Inl e \<Rightarrow> (Inr None, logging (ErrRetrieve lon lat e) w)
                   | Inr data \<Rightarrow>
                       (case subscript data ''features'' of
                          Inl e \<Rightarrow> (Inr None, logging (ErrRetrieve lon lat e) w)
                        | Inr features \<Rightarrow>
                            (Inr (Some (if truthy L features then features else not_found)), w)))
                else (Inr None, logging (ErrStac status) w))))"

text \<open>The decoded fields of a queue entry, in the order lines 224 to 230 read them.\<close>

record 'n request =
  r_request_id :: "'n json"
  r_lon :: "'n json"
  r_lat :: "'n json"
  r_min_cloud :: int
  r_max_cloud :: int
  r_time_range :: "'n json"

definition decode_request :: "'n lib \<Rightarrow> string \<Rightarrow> exn + 'n request" where
  "decode_request L request_data =
     (case json_loads L request_data of Inl e \<Rightarrow> Inl e | Inr request \<Rightarrow>
     (case subscript request ''request_id'' of Inl e \<Rightarrow> Inl e | Inr request_id \<Rightarrow>
     (case subscript request ''lon'' of Inl e \<Rightarrow> Inl e | Inr lon \<Rightarrow>
     (case subscript request ''lat'' of Inl e \<Rightarrow> Inl e | Inr lat \<Rightarrow>
     (case subscript request ''min_cloud'' of Inl e \<Rightarrow> Inl e | Inr v1 \<Rightarrow>
     (case py_int L v1 of Inl e \<Rightarrow> Inl e | Inr min_cloud \<Rightarrow>
     (case subscript request ''max_cloud'' of Inl e \<Rightarrow> Inl e | Inr v2 \<Rightarrow>
     (case py_int L v2 of Inl e \<Rightarrow> Inl e | Inr max_cloud \<Rightarrow>
     (case subscript request ''time_range'' of Inl e \<Rightarrow> Inl e | Inr time_range \<Rightarrow>
        Inr \<lparr>r_request_id = request_id, r_lon = lon, r_lat = lat,
             r_min_cloud = min_cloud, r_max_cloud = max_cloud,
             r_time_range = time_range\<rparr>)))))))))"

definition result_ttl :: nat where
  "result_ttl = 120"

definition result_key :: "'n lib \<Rightarrow> 'n json \<Rightarrow> string" where
  "result_key L request_id = ''result:'' @ format_value L request_id"

text \<open>The value that \<^verbatim>\<open>json.dumps(items)\<close> serialises: \<^verbatim>\<open>None\<close> becomes \<^verbatim>\<open>null\<close>.\<close>

definition dumped :: "'n json option \<Rightarrow> 'n json" where
  "dumped items = (case items of None \<Rightarrow> JNull | Some v \<Rightarrow> v)"

text \<open>
  One iteration of \<open>worker\<close>, up to the sleep: \<^verbatim>\<open>lpop\<close> takes the head of the queue
  (\<^verbatim>\<open>None\<close> when the queue is empty); an entry that is the empty string is false in
  \<^verbatim>\<open>if request_data\<close> and is skipped; any exception of the body is logged.
\<close>

definition worker_tick :: "'n::{plus,minus} lib \<Rightarrow> 'n env \<Rightarrow> 'n world \<Rightarrow> 'n world" where
  "worker_tick L E w =
     (case request_queue w of
        [] \<Rightarrow> w
      | request_data # rest \<Rightarrow>
          (let w1 = w\<lparr>request_queue := rest\<rparr> in
           if request_data = [] then w1
           else
             (case decode_request L request_data of
                Inl e \<Rightarrow> logging (ErrQueue e) w1
              | Inr r \<Rightarrow>
                  (case get_landsat_items L E (r_lon r) (r_lat r) (r_time_range r)
                          (r_min_cloud r) (r_max_cloud r) w1 of
                     (Inl e, w2) \<Rightarrow> logging (ErrQueue e) w2
                   | (Inr items, w2) \<Rightarrow>
                       logging (InfoProcessed (r_request_id r))
                         (redis_set (result_key L (r_request_id r)) (dumped items)
                            result_ttl w2)))))"

text \<open>
  \<open>worker\<close>: \<^verbatim>\<open>while True\<close> around one iteration and a sleep of one second. The model runs
  one iteration for each element of the list of the outside world's answers.
\<close>

fun worker :: "'n::{plus,minus} lib \<Rightarrow> 'n env list \<Rightarrow> 'n world \<Rightarrow> 'n world" where
  "worker L [] w = w"
| "worker L (E # Es) w = worker L Es (worker_tick L E w)"

section \<open>Example inputs\<close>

text \<open>
  Concrete library functions, answers of the outside world and stores, on which the
  theorems below are instantiated. Numbers are reals. \<open>sample_fmt_day\<close> and
  \<open>sample_fmt_time\<close> are the Gregorian calendar and the clock as \<^verbatim>\<open>strftime\<close> prints them
  (for the years 1000 to 9999). \<open>sample_loads\<close> and \<open>sample_strptime\<close> know the texts of
  the examples (the queue entries below and the timestamps \<^verbatim>\<open>2024-03-04 00:00:00\<close>, of
  ordinal 738949, and \<^verbatim>\<open>9999-12-01 00:00:00\<close>, of ordinal 3652029) and raise on every other
  text. \<open>sample_int\<close> truncates a number and rejects every string: the only string the
  examples convert, \<^verbatim>\<open>low\<close>, is not a numeral.
\<close>

definition request_text :: string where
  \<open>request_text = ''{"request_id": "abc", "lon": 10.0, "lat": 20.0, "min_cloud": 0, "max_cloud": 50, "time_range": "2024-01-01/2024-01-02"}''\<close>

definition request_doc :: "real json" where
  "request_doc = JObj [(''request_id'', JStr ''abc''), (''lon'', JNum 10), (''lat'', JNum 20),
     (''min_cloud'', JNum 0), (''max_cloud'', JNum 50),
     (''time_range'', JStr ''2024-01-01/2024-01-02'')]"

definition no_range_text :: string where
  \<open>no_range_text = ''{"request_id": "abc", "lon": 10.0, "lat": 20.0, "min_cloud": 0, "max_cloud": 50}''\<close>

definition no_range_doc :: "real json" where
  "no_range_doc = JObj [(''request_id'', JStr ''abc''), (''lon'', JNum 10), (''lat'', JNum 20),
     (''min_cloud'', JNum 0), (''max_cloud'', JNum 50)]"

definition cloudy_text :: string where
  \<open>cloudy_text = ''{"request_id": "abc", "lon": 10.0, "lat": 20.0, "min_cloud": "low", "max_cloud": 50, "time_range": "2024-01-01/2024-01-02"}''\<close>

definition cloudy_doc :: "real json" where
  "cloudy_doc = JObj [(''request_id'', JStr ''abc''), (''lon'', JNum 10), (''lat'', JNum 20),
     (''min_cloud'', JStr ''low''), (''max_cloud'', JNum 50),
     (''time_range'', JStr ''2024-01-01/2024-01-02'')]"

definition sample_loads :: "string \<Rightarrow> exn + real json" where
  "sample_loads s =
     (if s = request_text then Inr request_doc
      else if s = no_range_text then Inr no_range_doc
      else if s = cloudy_text then Inr cloudy_doc
      else Inl JSONDecodeError)"

definition sample_int :: "real json \<Rightarrow> exn + int" where
  "sample_int v =
     (case v of
        JNum x \<Rightarrow> Inr (if 0 \<le> x then \<lfloor>x\<rfloor> else \<lceil>x\<rceil>)
      | JBool b \<Rightarrow> Inr (if b then 1 else 0)
      | JStr s \<Rightarrow> Inl ValueError
      | _ \<Rightarrow> Inl TypeError)"

definition sample_strptime :: "string \<Rightarrow> exn + datetime" where
  "sample_strptime s =
     (if s = ''2024-03-04 00:00:00''
      then Inr \<lparr>ordinal = 738949, second_of_day = 0, microsecond = 0\<rparr>
      else if s = ''9999-12-01 00:00:00''
      then Inr \<lparr>ordinal = 3652029, second_of_day = 0, microsecond = 0\<rparr>
      else Inl ValueError)"

text \<open>Decimal digits, padded with zeros to two and to four places.\<close>

definition digit :: "nat \<Rightarrow> char" where
  "digit n = ''0123456789'' ! (n mod 10)"

definition pad2 :: "nat \<Rightarrow> string" where
  "pad2 n = [digit (n div 10), digit n]"

definition pad4 :: "nat \<Rightarrow> string" where
  "pad4 n = [digit (n div 1000), digit (n div 100), digit (n div 10), digit n]"

text \<open>
  Year, month and day of an ordinal in the proleptic Gregorian calendar. The days since
  0000-03-01 are cut into eras of 400 years (146097 days); inside an era the day gives the
  year of the era, the day of that year (which starts in March) and the month counted from
  March.
\<close>

definition day_of_era :: "int \<Rightarrow> int" where
  "day_of_era d = (d + 305) mod 146097"

definition year_of_era :: "int \<Rightarrow> int" where
  "year_of_era d =
     (day_of_era d - day_of_era d div 1460 + day_of_era d div 36524
        - day_of_era d div 146096) div 365"

definition day_of_year :: "int \<Rightarrow> int" where
  "day_of_year d =
     day_of_era d - (365 * year_of_era d + year_of_era d div 4 - year_of_era d div 100)"

definition march_month :: "int \<Rightarrow> int" where
  "march_month d = (5 * day_of_year d + 2) div 153"

definition civil_day :: "int \<Rightarrow> int" where
  "civil_day d = day_of_year d - (153 * march_month d + 2) div 5 + 1"

definition civil_month :: "int \<Rightarrow> int" where
  "civil_month d = (if march_month d < 10 then march_month d + 3 else march_month d - 9)"

definition civil_year :: "int \<Rightarrow> int" where
  "civil_year d =
     year_of_era d + ((d + 305) div 146097) * 400 + (if civil_month d \<le> 2 then 1 else 0)"

definition sample_fmt_day :: "int \<Rightarrow> string" where
  "sample_fmt_day d =
     pad4 (nat (civil_year d)) @ ''-'' @ pad2 (nat (civil_month d)) @ ''-'' @
     pad2 (nat (civil_day d))"

definition sample_fmt_time :: "nat \<Rightarrow> string" where
  "sample_fmt_time t =
     pad2 (t div 3600) @ '':'' @ pad2 (t div 60 mod 60) @ '':'' @ pad2 (t mod 60)"

definition sample_lib :: "real lib" where
  "sample_lib =
     \<lparr>json_loads = sample_loads,
      py_int = sample_int,
      num_of_bool = of_bool,
      num_truthy = (\<lambda>x. x \<noteq> 0),
      str_other = (\<lambda>v. ''None''),
      float_0_004 = 0.004,
      strptime = sample_strptime,
      fmt_day = sample_fmt_day,
      fmt_time = sample_fmt_time\<rparr>"

text \<open>An outside world in which both services answer 200 with no feature, the database
  works, and it is noon of 2024-03-04.\<close>

definition empty_features :: "real json" where
  "empty_features = JObj [(''features'', JArr [])]"

definition calm_env :: "real env" where
  "calm_env =
     \<lparr>API_KEY = Some ''key'',
      http_get = (\<lambda>ps. Response 200 (Inr empty_features)),
      http_post = (\<lambda>p. Response 200 (Inr empty_features)),
      db_read_error = (\<lambda>satellite. None),
      db_write_error = (\<lambda>satellite d. None),
      now = (\<lambda>satellite. \<lparr>ordinal = 738949, second_of_day = 43200, microsecond = 0\<rparr>)\<rparr>"

text \<open>The catalog search answers 500.\<close>

definition search_error_env :: "real env" where
  "search_error_env = calm_env\<lparr>http_post := (\<lambda>p. Response 500 (Inl JSONDecodeError))\<rparr>"

text \<open>The catalog search answers 200 with an object that has no key \<^verbatim>\<open>features\<close>.\<close>

definition search_bare_env :: "real env" where
  "search_bare_env = calm_env\<lparr>http_post := (\<lambda>p. Response 200 (Inr (JObj [])))\<rparr>"

text \<open>The catalog search finds one scene.\<close>

definition scene :: "real json" where
  "scene = JObj [(''id'', JStr ''scene-1'')]"

definition search_hit_env :: "real env" where
  "search_hit_env =
     calm_env\<lparr>http_post := (\<lambda>p. Response 200 (Inr (JObj [(''features'', JArr [scene])])))\<rparr>"

text \<open>The acquisition-plan API answers every probe with one feature, which names the
  satellite asked for.\<close>

definition plan_hit_env :: "real env" where
  "plan_hit_env =
     calm_env\<lparr>http_get :=
       (\<lambda>ps. Response 200 (Inr (JObj [(''features'', JArr [JStr (p_satellites ps)])])))\<rparr>"

text \<open>The database cannot be reached.\<close>

definition db_down_env :: "real env" where
  "db_down_env = calm_env\<lparr>db_read_error := (\<lambda>satellite. Some OperationalError)\<rparr>"

definition empty_world :: "real world" where
  "empty_world = \<lparr>request_queue = [], cache = Map.empty, progress = [], log = [], gets = []\<rparr>"


definition march_5 :: datetime where
  "march_5 = \<lparr>ordinal = 738950, second_of_day = 0, microsecond = 0\<rparr>"

section \<open>Properties of the utilities\<close>

lemma split_from_no_sep:
  "sep \<notin> set a \<Longrightarrow> split_from sep cur (a @ rest) = split_from sep (cur @ a) rest"
  by (induction a arbitrary: cur) auto

lemma split_from_at_sep:
  "sep \<notin> set a \<Longrightarrow> split_from sep cur (a @ sep # rest) = (cur @ a) # split_from sep [] rest"
  by (simp add: split_from_no_sep)

lemma py_split_no_sep: "sep \<notin> set s \<Longrightarrow> py_split sep s = [s]"
  using split_from_no_sep [of sep s "[]" "[]"] by (simp add: py_split_def)

lemma py_split_at_sep:
  "sep \<notin> set a \<Longrightarrow> py_split sep (a @ sep # rest) = a # py_split sep rest"
  by (simp add: py_split_def split_from_at_sep)

lemma first_sep_decomp:
  "sep \<in> set s \<Longrightarrow> \<exists>a rest. s = a @ sep # rest \<and> sep \<notin> set a"
  by (metis split_list_first)

lemma count_two_decomp:
  assumes "2 \<le> count_list s sep"
  shows "\<exists>a b r. s = a @ sep # b @ sep # r \<and> sep \<notin> set a \<and> sep \<notin> set b"
proof -
  from assms have "sep \<in> set s"
    by (metis count_list_0_iff not_numeral_le_zero)
  then obtain a rest where s: "s = a @ sep # rest" and a: "sep \<notin> set a"
    using first_sep_decomp by metis
  from a have "count_list a sep = 0" by (simp add: count_list_0_iff)
  with assms s have "1 \<le> count_list rest sep" by simp
  then have "sep \<in> set rest"
    by (metis count_list_0_iff not_one_le_zero)
  then obtain b r where rest: "rest = b @ sep # r" and b: "sep \<notin> set b"
    using first_sep_decomp by metis
  from s rest a b show ?thesis by blast
qed

lemma py_split_nonempty: "py_split sep s \<noteq> []"
proof (cases "sep \<in> set s")
  case True
  then obtain a rest where "s = a @ sep # rest" "sep \<notin> set a"
    using first_sep_decomp by metis
  then show ?thesis by (simp add: py_split_at_sep)
next
  case False
  then show ?thesis by (simp add: py_split_no_sep)
qed

lemma sep_not_in_extra_part: "CHR ''/'' \<notin> set extra_part"
  by (simp add: extra_part_def)

lemma convert_two_segments:
  assumes "CHR ''/'' \<notin> set a" and "py_split CHR ''/'' rest = b # segs"
  shows "convert_to_rfc3339 (a @ CHR ''/'' # rest) = Inr (a @ extra_part @ ''/'' @ b @ extra_part)"
  using assms by (simp add: convert_to_rfc3339_def py_split_at_sep py_index_def)

lemma is_stamp_append: "is_stamp (d @ extra_part) = (d \<noteq> [])"
  by (simp add: is_stamp_def)

lemma well_formed_range_result:
  assumes "CHR ''/'' \<notin> set a" and "CHR ''/'' \<notin> set b"
  shows "well_formed_range (a @ extra_part @ ''/'' @ b @ extra_part) = (a \<noteq> [] \<and> b \<noteq> [])"
proof -
  have l: "CHR ''/'' \<notin> set (a @ extra_part)"
    using assms(1) sep_not_in_extra_part by simp
  have r: "CHR ''/'' \<notin> set (b @ extra_part)"
    using assms(2) sep_not_in_extra_part by simp
  have "py_split CHR ''/'' ((a @ extra_part) @ CHR ''/'' # (b @ extra_part))
          = [a @ extra_part, b @ extra_part]"
    using py_split_at_sep [OF l, of "b @ extra_part"] py_split_no_sep [OF r] by simp
  then show ?thesis
    by (simp add: well_formed_range_def is_stamp_append)
qed

lemma first_segment_no_sep:
  "py_split CHR ''/'' s = b # segs \<Longrightarrow> CHR ''/'' \<notin> set b"
proof (cases "CHR ''/'' \<in> set s")
  case True
  assume h: "py_split CHR ''/'' s = b # segs"
  from True obtain a rest where s: "s = a @ CHR ''/'' # rest" and a: "CHR ''/'' \<notin> set a"
    using first_sep_decomp by metis
  with h show ?thesis by (simp add: py_split_at_sep)
next
  case False
  assume h: "py_split CHR ''/'' s = b # segs"
  with False show ?thesis by (simp add: py_split_no_sep)
qed

section \<open>Properties of the worker\<close>

lemma cache_logging: "cache (logging m w) = cache w"
  by (simp add: logging_def)

lemma queue_logging: "request_queue (logging m w) = request_queue w"
  by (simp add: logging_def)

lemma log_logging: "log (logging m w) = log w @ [m]"
  by (simp add: logging_def)

lemma cache_redis_set: "cache (redis_set k v ttl w) = (cache w)(k \<mapsto> (v, ttl))"
  by (simp add: redis_set_def)

lemma worker_tick_decode_error:
  assumes "request_queue w = request_data # rest" and "request_data \<noteq> []"
    and "decode_request L request_data = Inl e"
  shows "worker_tick L E w = logging (ErrQueue e) (w\<lparr>request_queue := rest\<rparr>)"
  using assms by (simp add: worker_tick_def)

lemma worker_tick_decoded:
  assumes "request_queue w = request_data # rest" and "request_data \<noteq> []"
    and "decode_request L request_data = Inr r"
    and "get_landsat_items L E (r_lon r) (r_lat r) (r_time_range r)
           (r_min_cloud r) (r_max_cloud r) (w\<lparr>request_queue := rest\<rparr>) = (Inr items, w2)"
  shows "worker_tick L E w =
           logging (InfoProcessed (r_request_id r))
             (redis_set (result_key L (r_request_id r)) (dumped items) result_ttl w2)"
  using assms by (simp add: worker_tick_def)

lemma get_landsat_items_failed:
  assumes "build_payload L lon lat time_range min_cloud max_cloud = Inr payload"
    and "http_post E payload = Failed e"
  shows "get_landsat_items L E lon lat time_range min_cloud max_cloud w =
           (Inr None, logging (ErrRetrieve lon lat e) w)"
  using assms by (simp add: get_landsat_items_def)

lemma get_landsat_items_status:
  assumes "build_payload L lon lat time_range min_cloud max_cloud = Inr payload"
    and "http_post E payload = Response status body" and "status \<noteq> 200"
  shows "get_landsat_items L E lon lat time_range min_cloud max_cloud w =
           (Inr None, logging (ErrStac status) w)"
  using assms by (simp add: get_landsat_items_def)

lemma get_landsat_items_ok:
  assumes "build_payload L lon lat time_range min_cloud max_cloud = Inr payload"
    and "http_post E payload = Response 200 (Inr data)"
    and "subscript data ''features'' = Inr features"
  shows "get_landsat_items L E lon lat time_range min_cloud max_cloud w =
           (Inr (Some (if truthy L features then features else not_found)), w)"
  using assms by (simp add: get_landsat_items_def)

lemma get_landsat_items_returns:
  assumes "build_payload L lon lat time_range min_cloud max_cloud = Inr payload"
  shows "\<exists>items w2. get_landsat_items L E lon lat time_range min_cloud max_cloud w
                      = (Inr items, w2) \<and> cache w2 = cache w \<and>
                      request_queue w2 = request_queue w"
  using assms
  by (simp add: get_landsat_items_def cache_logging queue_logging
      split: http_outcome.splits sum.splits)

lemma decode_request_fails:
  assumes "json_loads L request_data = Inl e0 \<or>
         (\<exists>kvs. json_loads L request_data = Inr (JObj kvs) \<and>
            ((\<exists>k \<in> {''request_id'', ''lon'', ''lat'', ''min_cloud'', ''max_cloud'', ''time_range''}.
                 map_of kvs k = None) \<or>
             (\<exists>v e1. map_of kvs ''min_cloud'' = Some v \<and> py_int L v = Inl e1) \<or>
             (\<exists>v e2. map_of kvs ''max_cloud'' = Some v \<and> py_int L v = Inl e2)))"
  shows "\<exists>e. decode_request L request_data = Inl e"
  using assms
  by (auto simp add: decode_request_def subscript_def split: sum.splits option.splits)

lemma request_text_nonempty: "request_text \<noteq> []"
  by (simp add: request_text_def)

lemma sample_decode: "decode_request sample_lib request_text = Inr
   \<lparr>r_request_id = JStr ''abc'', r_lon = JNum 10, r_lat = JNum 20, r_min_cloud = 0,
    r_max_cloud = 50, r_time_range = JStr ''2024-01-01/2024-01-02''\<rparr>"
  by (simp add: decode_request_def sample_lib_def sample_loads_def request_doc_def subscript_def sample_int_def)

lemma sample_payload: "build_payload sample_lib (JNum 10) (JNum 20) (JStr ''2024-01-01/2024-01-02'') 0 50
  = Inr \<lparr>intersects = build_square 10 20 0.004,
         datetime_range = ''2024-01-01T00:00:00Z/2024-01-02T00:00:00Z'',
         cloud_gte = 0, cloud_lte = 50, collections = [''landsat-c2l2-sr'']\<rparr>"
  by (simp add: build_payload_def as_num_def sample_lib_def convert_to_rfc3339_def py_split_def py_index_def extra_part_def)

lemma sample_loads_simps:
  "json_loads sample_lib ''not json'' = Inl JSONDecodeError"
  "json_loads sample_lib no_range_text = Inr no_range_doc"
  "json_loads sample_lib cloudy_text = Inr cloudy_doc"
  by (simp_all add: sample_lib_def sample_loads_def request_text_def no_range_text_def
      cloudy_text_def)

section \<open>Properties of the scheduler\<close>

lemma gets_logging: "gets (logging m w) = gets w"
  by (simp add: logging_def)

lemma gets_redis_set: "gets (redis_set k v ttl w) = gets w"
  by (simp add: redis_set_def)

lemma gets_save_to_db: "gets (save_to_db L E features date satellite w) = gets w"
  by (simp add: save_to_db_def logging_def Let_def split: option.splits)

lemma gets_probe:
  "gets (probe L E satellite date w) =
     gets w @ [\<lparr>p_api_key = API_KEY E, p_satellites = satellite,
                p_datetime = fmt_day L (ordinal date) @ ''T00:00:00Z''\<rparr>]"
  by (simp add: probe_def Let_def gets_logging gets_redis_set gets_save_to_db
      split: http_outcome.splits sum.splits option.splits)

lemma map_from_one:
  "map f [1..<Suc (Suc n)] = f 1 # map (\<lambda>i. f (Suc i)) [1..<Suc n]"
proof -
  have "[1..<Suc (Suc n)] = 1 # [Suc 1..<Suc (Suc n)]"
    by (simp add: upt_rec)
  also have "[Suc 1..<Suc (Suc n)] = map Suc [1..<Suc n]"
    by (simp only: map_Suc_upt)
  finally show ?thesis by (simp add: comp_def)
qed

lemma add_days_one:
  "1 \<le> ordinal date \<Longrightarrow> ordinal date + 1 \<le> max_ordinal \<Longrightarrow>
   add_days date 1 = Inr (date\<lparr>ordinal := ordinal date + 1\<rparr>)"
  by (simp add: add_days_def)


lemma probe_loop_trace:
  assumes "1 \<le> ordinal date" and "ordinal date + int n \<le> max_ordinal"
  shows "fst (probe_loop n L E satellite date w) = Inr (date\<lparr>ordinal := ordinal date + int n\<rparr>) \<and>
         gets (snd (probe_loop n L E satellite date w)) =
           gets w @ map (\<lambda>i. \<lparr>p_api_key = API_KEY E, p_satellites = satellite,
                          p_datetime = fmt_day L (ordinal date + int i) @ ''T00:00:00Z''\<rparr>)
                [1..<Suc n]"
  using assms
proof (induction n arbitrary: date w)
  case 0
  then show ?case by simp
next
  case (Suc n)
  let ?d = "date\<lparr>ordinal := ordinal date + 1\<rparr>"
  have step: "add_days date 1 = Inr ?d"
    using Suc.prems by (simp add: add_days_one)
  have ih: "fst (probe_loop n L E satellite ?d (probe L E satellite ?d w))
              = Inr (?d\<lparr>ordinal := ordinal ?d + int n\<rparr>) \<and>
            gets (snd (probe_loop n L E satellite ?d (probe L E satellite ?d w))) =
              gets (probe L E satellite ?d w) @
                map (\<lambda>i. \<lparr>p_api_key = API_KEY E, p_satellites = satellite,
                          p_datetime = fmt_day L (ordinal ?d + int i) @ ''T00:00:00Z''\<rparr>)
                  [1..<Suc n]"
    using Suc.prems by (intro Suc.IH) simp_all
  show ?case
    unfolding map_from_one
    using ih by (simp add: step gets_probe ac_simps del: upt_Suc)
qed


lemma select_last_Max:
  "select_last rows satellite =
     (if satellite \<in> fst ` set rows
      then Some (Max (snd ` {r \<in> set rows. fst r = satellite}))
      else None)"
proof -
  let ?ds = "map snd (filter (\<lambda>r. fst r = satellite) rows)"
  have set_ds: "set ?ds = snd ` {r \<in> set rows. fst r = satellite}" by auto
  show ?thesis
  proof (cases ?ds)
    case Nil
    then have "satellite \<notin> fst ` set rows"
      by (auto simp add: filter_empty_conv)
    with Nil show ?thesis by (simp add: select_last_def)
  next
    case (Cons d ds)
    then have "satellite \<in> fst ` set rows"
      by (metis (mono_tags, lifting) set_ds empty_iff image_iff list.set_intros(1) mem_Collect_eq)
    moreover have "fold max ds d = Max (set ?ds)"
      unfolding Cons using Max.set_eq_fold [of d ds] by simp
    ultimately show ?thesis using Cons set_ds by (simp add: select_last_def)
  qed
qed

lemma gets_resolve_start: "gets (snd (resolve_start L E satellite w)) = gets w"
  by (simp add: resolve_start_def get_the_last_date_def gets_logging split: option.splits)


lemma window_probes:
  assumes "fst (resolve_start L E satellite w) = Inr start"
    and "1 \<le> ordinal start" and "ordinal start + 100 \<le> max_ordinal"
  shows "fst (satellite_window L E satellite w) = None \<and>
         gets (snd (satellite_window L E satellite w)) =
           gets w @ map (\<lambda>i. \<lparr>p_api_key = API_KEY E, p_satellites = satellite,
                          p_datetime = fmt_day L (ordinal start + int i) @ ''T00:00:00Z''\<rparr>)
                [1..<101]"
proof -
  obtain w1 where r: "resolve_start L E satellite w = (Inr start, w1)"
    using assms(1) by (cases "resolve_start L E satellite w") auto
  have g: "gets w1 = gets w" using gets_resolve_start [of L E satellite w] r by simp
  have n: "[1..<101] = [1..<Suc 100]" by simp
  have range: "ordinal start + int 100 \<le> max_ordinal" using assms(3) by simp
  obtain res w2 where p: "probe_loop 100 L E satellite start w1 = (res, w2)"
    by (cases "probe_loop 100 L E satellite start w1")
  from probe_loop_trace [OF assms(2) range, of L E satellite w1] p g
  have res: "res = Inr (start\<lparr>ordinal := ordinal start + int 100\<rparr>)"
    and tr: "gets w2 = gets w @ map (\<lambda>i. \<lparr>p_api_key = API_KEY E, p_satellites = satellite,
                          p_datetime = fmt_day L (ordinal start + int i) @ ''T00:00:00Z''\<rparr>)
                [1..<Suc 100]"
    by simp_all
  show ?thesis
    unfolding n using r p res tr by (simp add: satellite_window_def)
qed




lemma cache_save_to_db: "cache (save_to_db L E features date satellite w) = cache w"
  by (simp add: save_to_db_def logging_def Let_def split: option.splits)

lemma probe_hit:
  assumes "http_get E \<lparr>p_api_key = API_KEY E, p_satellites = satellite,
                       p_datetime = fmt_day L (ordinal date) @ ''T00:00:00Z''\<rparr>
             = Response 200 (Inr (JObj kvs))"
    and "map_of kvs ''features'' = Some features" and "truthy L features"
  shows "probe L E satellite date w =
           logging (InfoSaved satellite (fmt_day L (ordinal date)))
             (redis_set (fmt_day L (ordinal date)) features feature_ttl
                (save_to_db L E features date satellite
                   (w\<lparr>gets := gets w @ [\<lparr>p_api_key = API_KEY E, p_satellites = satellite,
                        p_datetime = fmt_day L (ordinal date) @ ''T00:00:00Z''\<rparr>]\<rparr>)))"
  using assms by (simp add: probe_def Let_def dict_get_def)


lemma cache_probe_hit:
  assumes "http_get E \<lparr>p_api_key = API_KEY E, p_satellites = satellite,
                       p_datetime = fmt_day L (ordinal date) @ ''T00:00:00Z''\<rparr>
             = Response 200 (Inr (JObj kvs))"
    and "map_of kvs ''features'' = Some features" and "truthy L features"
  shows "cache (probe L E satellite date w) =
           (cache w)(fmt_day L (ordinal date) \<mapsto> (features, feature_ttl))"
  by (simp add: probe_hit [OF assms] cache_logging cache_redis_set cache_save_to_db)


lemmas civil_defs = day_of_era_def year_of_era_def day_of_year_def march_month_def
  civil_day_def civil_month_def civil_year_def

lemma sample_day:
  "fmt_day sample_lib 738950 = ''2024-03-05''"
  "fmt_time sample_lib 0 = ''00:00:00''"
  by (simp_all add: sample_lib_def sample_fmt_day_def sample_fmt_time_def civil_defs
      pad2_def pad4_def digit_def)








section \<open>Claims about the utilities\<close>

text \<open>
  Claim C7. For every \<open>lon\<close>, \<open>lat\<close> and \<open>delta\<close>, \<open>build_square\<close> returns a polygon whose
  single ring has exactly 5 coordinate pairs, the first equal to the last, with the corners
  \<open>(lon+delta, lat+delta)\<close>, \<open>(lon+delta, lat-delta)\<close>, \<open>(lon-delta, lat-delta)\<close>,
  \<open>(lon-delta, lat+delta)\<close> in that order.
\<close>

theorem build_square_ring:
  "gtype (build_square lon lat delta) = ''Polygon'' \<and>
   coordinates (build_square lon lat delta) =
     [[[lon + delta, lat + delta], [lon + delta, lat - delta],
       [lon - delta, lat - delta], [lon - delta, lat + delta],
       [lon + delta, lat + delta]]] \<and>
   length (hd (coordinates (build_square lon lat delta))) = 5 \<and>
   hd (hd (coordinates (build_square lon lat delta))) =
     last (hd (coordinates (build_square lon lat delta)))"
  by (simp add: build_square_def Let_def)

text \<open>
  Claim C10. For every input with two or more \<open>/\<close> separators, \<open>convert_to_rfc3339\<close> raises
  nothing and returns the first two segments, each followed by \<open>T00:00:00Z\<close>, joined by
  \<open>/\<close>; whatever follows the second separator has no part in the result.
\<close>

theorem convert_discards_extra_segments:
  assumes "2 \<le> count_list date_str CHR ''/''"
  shows "\<exists>a b r. date_str = a @ ''/'' @ b @ ''/'' @ r \<and>
           CHR ''/'' \<notin> set a \<and> CHR ''/'' \<notin> set b \<and>
           py_split CHR ''/'' date_str = a # b # py_split CHR ''/'' r \<and>
           convert_to_rfc3339 date_str = Inr (a @ ''T00:00:00Z'' @ ''/'' @ b @ ''T00:00:00Z'')"
proof -
  from count_two_decomp [OF assms] obtain a b r
    where s: "date_str = a @ CHR ''/'' # b @ CHR ''/'' # r"
      and a: "CHR ''/'' \<notin> set a" and b: "CHR ''/'' \<notin> set b"
    by blast
  have sp: "py_split CHR ''/'' (b @ CHR ''/'' # r) = b # py_split CHR ''/'' r"
    using b by (rule py_split_at_sep)
  have "py_split CHR ''/'' date_str = a # b # py_split CHR ''/'' r"
    using a sp s by (simp add: py_split_at_sep)
  moreover have "convert_to_rfc3339 date_str = Inr (a @ extra_part @ ''/'' @ b @ extra_part)"
    unfolding s using a sp by (rule convert_two_segments)
  ultimately show ?thesis using s a b by (auto simp add: extra_part_def)
qed

theorem convert_discards_extra_segments_witness:
  "2 \<le> count_list ''2023-01-01/2023-01-31/2023-02-28'' CHR ''/'' \<and>
   convert_to_rfc3339 ''2023-01-01/2023-01-31/2023-02-28''
     = Inr ''2023-01-01T00:00:00Z/2023-01-31T00:00:00Z''"
proof -
  have h: "2 \<le> count_list ''2023-01-01/2023-01-31/2023-02-28'' CHR ''/''" by simp
  from convert_discards_extra_segments [OF h] obtain a b r
    where sp: "py_split CHR ''/'' ''2023-01-01/2023-01-31/2023-02-28''
                 = a # b # py_split CHR ''/'' r"
      and conv: "convert_to_rfc3339 ''2023-01-01/2023-01-31/2023-02-28''
                   = Inr (a @ ''T00:00:00Z'' @ ''/'' @ b @ ''T00:00:00Z'')"
    by blast
  have "py_split CHR ''/'' ''2023-01-01/2023-01-31/2023-02-28''
          = [''2023-01-01'', ''2023-01-31'', ''2023-02-28'']"
    by (simp add: py_split_def)
  with sp have "a = ''2023-01-01''" and "b = ''2023-01-31''" by simp_all
  with conv h show ?thesis by simp
qed

text \<open>
  Claim C6, as stated, says that every input with an empty segment fails. The input
  \<^verbatim>\<open>2023-01-01/2023-01-31/\<close> has an empty third segment, and the conversion returns the
  well-formed range of the first two.
\<close>

theorem convert_trailing_separator_counterexample:
  "[] \<in> set (py_split CHR ''/'' ''2023-01-01/2023-01-31/'') \<and>
   convert_to_rfc3339 ''2023-01-01/2023-01-31/'' = Inr ''2023-01-01T00:00:00Z/2023-01-31T00:00:00Z'' \<and>
   well_formed_range ''2023-01-01T00:00:00Z/2023-01-31T00:00:00Z''"
  by (simp add: convert_to_rfc3339_def py_split_def py_index_def extra_part_def well_formed_range_def is_stamp_def)

text \<open>
  Claim C6, amended. \<open>convert_to_rfc3339\<close> maps \<^verbatim>\<open>2023-01-01/2023-01-31\<close> to
  \<^verbatim>\<open>2023-01-01T00:00:00Z/2023-01-31T00:00:00Z\<close>; an input without \<open>/\<close> raises IndexError; an
  input with a \<open>/\<close> whose first or second segment is empty raises nothing and returns a
  string that is not a well-formed range (the side of the empty segment is the bare
  \<open>T00:00:00Z\<close>).
\<close>

theorem convert_to_rfc3339_failures:
  "convert_to_rfc3339 ''2023-01-01/2023-01-31'' = Inr ''2023-01-01T00:00:00Z/2023-01-31T00:00:00Z'' \<and>
   (CHR ''/'' \<notin> set s \<longrightarrow> convert_to_rfc3339 s = Inl IndexError) \<and>
   (CHR ''/'' \<in> set s \<and> [] \<in> set (take 2 (py_split CHR ''/'' s)) \<longrightarrow>
      (\<exists>r. convert_to_rfc3339 s = Inr r \<and> \<not> well_formed_range r))"
proof (intro conjI impI)
  show "convert_to_rfc3339 ''2023-01-01/2023-01-31'' = Inr ''2023-01-01T00:00:00Z/2023-01-31T00:00:00Z''"
    by (simp add: convert_to_rfc3339_def py_split_def py_index_def extra_part_def)
next
  assume "CHR ''/'' \<notin> set s"
  then show "convert_to_rfc3339 s = Inl IndexError"
    by (simp add: convert_to_rfc3339_def py_split_no_sep py_index_def)
next
  assume h: "CHR ''/'' \<in> set s \<and> [] \<in> set (take 2 (py_split CHR ''/'' s))"
  then obtain a rest where s: "s = a @ CHR ''/'' # rest" and a: "CHR ''/'' \<notin> set a"
    using first_sep_decomp by metis
  obtain b segs where sp: "py_split CHR ''/'' rest = b # segs"
    using py_split_nonempty [of "CHR ''/''" rest] by (cases "py_split CHR ''/'' rest") auto
  have b: "CHR ''/'' \<notin> set b" using sp by (rule first_segment_no_sep)
  have conv: "convert_to_rfc3339 s = Inr (a @ extra_part @ ''/'' @ b @ extra_part)"
    unfolding s using a sp by (rule convert_two_segments)
  have "py_split CHR ''/'' s = a # b # segs"
    using s a sp by (simp add: py_split_at_sep)
  with h have "a = [] \<or> b = []" by auto
  then have "\<not> well_formed_range (a @ extra_part @ ''/'' @ b @ extra_part)"
    using well_formed_range_result [OF a b] by auto
  with conv show "\<exists>r. convert_to_rfc3339 s = Inr r \<and> \<not> well_formed_range r" by blast
qed

theorem convert_to_rfc3339_failures_witness:
  "convert_to_rfc3339 ''20230101'' = Inl IndexError \<and>
   (\<exists>r. convert_to_rfc3339 ''2023-01-01/'' = Inr r \<and> \<not> well_formed_range r)"
proof -
  have h1: "CHR ''/'' \<notin> set ''20230101''" by simp
  have h2: "CHR ''/'' \<in> set ''2023-01-01/'' \<and> [] \<in> set (take 2 (py_split CHR ''/'' ''2023-01-01/''))"
    by (simp add: py_split_def)
  show ?thesis
    using h1 h2 convert_to_rfc3339_failures [of "''20230101''"]
      convert_to_rfc3339_failures [of "''2023-01-01/''"] by blast
qed

section \<open>Claims about the request queue worker\<close>

text \<open>
  Claim C1, as stated, says that after a catalog search ending in a status other than 200
  the worker writes no \<^verbatim>\<open>result:<request id>\<close> key. For the request \<^verbatim>\<open>abc\<close> and a search
  answered with status 500, the key \<^verbatim>\<open>result:abc\<close> holds \<^verbatim>\<open>null\<close> with an expiry of 120
  seconds after the iteration.
\<close>

theorem worker_writes_null_counterexample:
  "cache (worker_tick sample_lib search_error_env (empty_world\<lparr>request_queue := [request_text]\<rparr>))
     ''result:abc'' = Some (JNull, 120)"
  by (simp add: worker_tick_def sample_decode request_text_nonempty get_landsat_items_def
      sample_payload search_error_env_def calm_env_def logging_def redis_set_def result_key_def
      format_value_def dumped_def result_ttl_def empty_world_def)

text \<open>
  Claim C1, amended. For every dequeued entry that decodes to a request and whose catalog
  search ends in an exception of the client or in a status other than 200,
  \<open>get_landsat_items\<close> logs the error and returns \<^verbatim>\<open>None\<close>, and the worker then writes the key
  \<^verbatim>\<open>result:<request id>\<close> holding \<^verbatim>\<open>null\<close> with an expiry of 120 seconds; the entry has left
  the queue and the search is not repeated.
\<close>

theorem worker_writes_null_on_failure:
  assumes "request_queue w = request_data # rest" and "request_data \<noteq> []"
    and "decode_request L request_data = Inr r"
    and "build_payload L (r_lon r) (r_lat r) (r_time_range r) (r_min_cloud r) (r_max_cloud r)
           = Inr payload"
    and "http_post E payload = Failed e \<or>
         (http_post E payload = Response status body \<and> status \<noteq> 200)"
  shows "worker_tick L E w =
           logging (InfoProcessed (r_request_id r))
             (redis_set (''result:'' @ format_value L (r_request_id r)) JNull 120
                (logging (if http_post E payload = Failed e
                          then ErrRetrieve (r_lon r) (r_lat r) e else ErrStac status)
                   (w\<lparr>request_queue := rest\<rparr>))) \<and>
         cache (worker_tick L E w) (''result:'' @ format_value L (r_request_id r))
           = Some (JNull, 120)"
proof -
  let ?w1 = "w\<lparr>request_queue := rest\<rparr>"
  let ?m = "if http_post E payload = Failed e
            then ErrRetrieve (r_lon r) (r_lat r) e else ErrStac status"
  have "get_landsat_items L E (r_lon r) (r_lat r) (r_time_range r)
          (r_min_cloud r) (r_max_cloud r) ?w1 = (Inr None, logging ?m ?w1)"
    using assms(5)
  proof
    assume "http_post E payload = Failed e"
    then show ?thesis using get_landsat_items_failed [OF assms(4)] by simp
  next
    assume h: "http_post E payload = Response status body \<and> status \<noteq> 200"
    then show ?thesis using get_landsat_items_status [OF assms(4), of E status body] by simp
  qed
  from worker_tick_decoded [OF assms(1,2,3) this]
  have eq: "worker_tick L E w =
           logging (InfoProcessed (r_request_id r))
             (redis_set (''result:'' @ format_value L (r_request_id r)) JNull 120
                (logging ?m ?w1))"
    by (simp add: dumped_def result_ttl_def result_key_def)
  then show ?thesis by (simp add: cache_logging cache_redis_set)
qed

theorem worker_writes_null_on_failure_witness:
  "worker_tick sample_lib search_error_env (empty_world\<lparr>request_queue := [request_text]\<rparr>) =
     logging (InfoProcessed (JStr ''abc''))
       (redis_set ''result:abc'' JNull 120 (logging (ErrStac 500) empty_world)) \<and>
   cache (worker_tick sample_lib search_error_env (empty_world\<lparr>request_queue := [request_text]\<rparr>))
     ''result:abc'' = Some (JNull, 120)"
proof -
  let ?w = "empty_world\<lparr>request_queue := [request_text]\<rparr>"
  let ?r = "\<lparr>r_request_id = JStr ''abc'', r_lon = JNum 10, r_lat = JNum 20, r_min_cloud = 0,
             r_max_cloud = 50, r_time_range = JStr ''2024-01-01/2024-01-02''\<rparr> :: real request"
  let ?p = "\<lparr>intersects = build_square 10 20 0.004,
             datetime_range = ''2024-01-01T00:00:00Z/2024-01-02T00:00:00Z'',
             cloud_gte = 0, cloud_lte = 50, collections = [''landsat-c2l2-sr'']\<rparr> :: real payload"
  have h1: "request_queue ?w = request_text # []" by (simp add: empty_world_def)
  have h3: "decode_request sample_lib request_text = Inr ?r" by (rule sample_decode)
  have h4: "build_payload sample_lib (r_lon ?r) (r_lat ?r) (r_time_range ?r) (r_min_cloud ?r)
              (r_max_cloud ?r) = Inr ?p"
    using sample_payload by simp
  have h5: "http_post search_error_env ?p = Failed ClientError \<or>
            (http_post search_error_env ?p = Response 500 (Inl JSONDecodeError) \<and> (500::nat) \<noteq> 200)"
    by (simp add: search_error_env_def calm_env_def)
  have w1: "?w\<lparr>request_queue := []\<rparr> = empty_world" by (simp add: empty_world_def)
  have k: "format_value sample_lib (JStr ''abc'') = ''abc''"
    by (simp add: format_value_def)
  have nf: "http_post search_error_env ?p \<noteq> Failed ClientError"
    by (simp add: search_error_env_def calm_env_def)
  show ?thesis
    using worker_writes_null_on_failure [OF h1 request_text_nonempty h3 h4 h5] w1 k nf
    by (simp add: cache_logging cache_redis_set)
qed

text \<open>
  Claim C5, as stated, says that after a catalog search answered 200 the key holds the
  features or else the not-found marker. For a 200 answer whose object has no key
  \<^verbatim>\<open>features\<close>, the key \<^verbatim>\<open>result:abc\<close> holds \<^verbatim>\<open>null\<close>, which is neither.
\<close>

theorem worker_null_on_bare_answer_counterexample:
  "cache (worker_tick sample_lib search_bare_env (empty_world\<lparr>request_queue := [request_text]\<rparr>))
     ''result:abc'' = Some (JNull, 120) \<and>
   (JNull :: real json) \<noteq> JObj [(''message'', JStr ''not found'')]"
  by (simp add: worker_tick_def sample_decode request_text_nonempty get_landsat_items_def
      sample_payload search_bare_env_def calm_env_def logging_def redis_set_def result_key_def
      format_value_def dumped_def result_ttl_def empty_world_def subscript_def)

text \<open>
  Claim C5, amended. For every dequeued request whose catalog search answers 200, the worker
  writes the key \<^verbatim>\<open>result:<request id>\<close> with an expiry of 120 seconds, and the entry has
  left the queue. The key holds the value of \<^verbatim>\<open>features\<close> when the body is a JSON object
  whose \<^verbatim>\<open>features\<close> are non-empty, the marker \<^verbatim>\<open>{'message': 'not found'}\<close> when its
  \<^verbatim>\<open>features\<close> are empty, and \<^verbatim>\<open>null\<close> when the body is not JSON or is not an object
  with the key \<^verbatim>\<open>features\<close>.
\<close>

theorem worker_caches_search_result:
  assumes "request_queue w = request_data # rest" and "request_data \<noteq> []"
    and "decode_request L request_data = Inr r"
    and "build_payload L (r_lon r) (r_lat r) (r_time_range r) (r_min_cloud r) (r_max_cloud r)
           = Inr payload"
    and "http_post E payload = Response 200 body"
  shows "(\<exists>v. cache (worker_tick L E w) (''result:'' @ format_value L (r_request_id r))
                = Some (v, 120)) \<and>
         request_queue (worker_tick L E w) = rest \<and>
         (body = Inr (JObj kvs) \<and> map_of kvs ''features'' = Some features \<and>
            truthy L features \<longrightarrow>
            cache (worker_tick L E w) (''result:'' @ format_value L (r_request_id r))
              = Some (features, 120)) \<and>
         (body = Inr (JObj kvs) \<and> map_of kvs ''features'' = Some features \<and>
            \<not> truthy L features \<longrightarrow>
            cache (worker_tick L E w) (''result:'' @ format_value L (r_request_id r))
              = Some (JObj [(''message'', JStr ''not found'')], 120)) \<and>
         (body = Inl e \<or> (body = Inr (JObj kvs) \<and> map_of kvs ''features'' = None) \<or>
            (body = Inr data \<and> (\<forall>items. data \<noteq> JObj items)) \<longrightarrow>
            cache (worker_tick L E w) (''result:'' @ format_value L (r_request_id r))
              = Some (JNull, 120))"
proof -
  let ?w1 = "w\<lparr>request_queue := rest\<rparr>"
  let ?key = "''result:'' @ format_value L (r_request_id r)"
  have tick: "\<And>items w2.
      get_landsat_items L E (r_lon r) (r_lat r) (r_time_range r)
        (r_min_cloud r) (r_max_cloud r) ?w1 = (Inr items, w2) \<Longrightarrow>
      worker_tick L E w =
        logging (InfoProcessed (r_request_id r)) (redis_set ?key (dumped items) 120 w2)"
    using worker_tick_decoded [OF assms(1,2,3)] by (simp add: result_key_def result_ttl_def)
  from get_landsat_items_returns [OF assms(4)] obtain items w2
    where g: "get_landsat_items L E (r_lon r) (r_lat r) (r_time_range r)
                (r_min_cloud r) (r_max_cloud r) ?w1 = (Inr items, w2)"
      and q: "request_queue w2 = rest"
    by fastforce
  have c1: "\<exists>v. cache (worker_tick L E w) ?key = Some (v, 120)"
    unfolding tick [OF g] by (simp add: cache_logging cache_redis_set)
  have c2: "request_queue (worker_tick L E w) = rest"
    unfolding tick [OF g] using q by (simp add: queue_logging redis_set_def)
  have c3: "cache (worker_tick L E w) ?key = Some (features, 120)"
    if "body = Inr (JObj kvs) \<and> map_of kvs ''features'' = Some features \<and> truthy L features"
  proof -
    from that assms(5) have post: "http_post E payload = Response 200 (Inr (JObj kvs))"
      and f: "subscript (JObj kvs) ''features'' = Inr features"
      by (simp_all add: subscript_def)
    show ?thesis
      unfolding tick [OF get_landsat_items_ok [OF assms(4) post f]] using that
      by (simp add: cache_logging cache_redis_set dumped_def)
  qed
  have c4: "cache (worker_tick L E w) ?key = Some (JObj [(''message'', JStr ''not found'')], 120)"
    if "body = Inr (JObj kvs) \<and> map_of kvs ''features'' = Some features \<and> \<not> truthy L features"
  proof -
    from that assms(5) have post: "http_post E payload = Response 200 (Inr (JObj kvs))"
      and f: "subscript (JObj kvs) ''features'' = Inr features"
      by (simp_all add: subscript_def)
    show ?thesis
      unfolding tick [OF get_landsat_items_ok [OF assms(4) post f]] using that
      by (simp add: cache_logging cache_redis_set dumped_def not_found_def)
  qed
  have c5: "cache (worker_tick L E w) ?key = Some (JNull, 120)"
    if h: "body = Inl e \<or> (body = Inr (JObj kvs) \<and> map_of kvs ''features'' = None) \<or>
            (body = Inr data \<and> (\<forall>items. data \<noteq> JObj items))"
  proof -
    have "\<exists>w2. get_landsat_items L E (r_lon r) (r_lat r) (r_time_range r)
                (r_min_cloud r) (r_max_cloud r) ?w1 = (Inr None, w2)"
      using h assms(4,5)
      by (cases data) (auto simp add: get_landsat_items_def subscript_def)
    then obtain w3 where "get_landsat_items L E (r_lon r) (r_lat r) (r_time_range r)
                (r_min_cloud r) (r_max_cloud r) ?w1 = (Inr None, w3)"
      by blast
    from tick [OF this] show ?thesis
      by (simp add: cache_logging cache_redis_set dumped_def)
  qed
  from c1 c2 c3 c4 c5 show ?thesis by blast
qed

theorem worker_caches_search_result_witness:
  "cache (worker_tick sample_lib search_hit_env (empty_world\<lparr>request_queue := [request_text]\<rparr>))
     ''result:abc'' = Some (JArr [scene], 120) \<and>
   cache (worker_tick sample_lib calm_env (empty_world\<lparr>request_queue := [request_text]\<rparr>))
     ''result:abc'' = Some (JObj [(''message'', JStr ''not found'')], 120) \<and>
   cache (worker_tick sample_lib search_bare_env (empty_world\<lparr>request_queue := [request_text]\<rparr>))
     ''result:abc'' = Some (JNull, 120)"
proof -
  let ?w = "empty_world\<lparr>request_queue := [request_text]\<rparr>"
  let ?r = "\<lparr>r_request_id = JStr ''abc'', r_lon = JNum 10, r_lat = JNum 20, r_min_cloud = 0,
             r_max_cloud = 50, r_time_range = JStr ''2024-01-01/2024-01-02''\<rparr> :: real request"
  let ?p = "\<lparr>intersects = build_square 10 20 0.004,
             datetime_range = ''2024-01-01T00:00:00Z/2024-01-02T00:00:00Z'',
             cloud_gte = 0, cloud_lte = 50, collections = [''landsat-c2l2-sr'']\<rparr> :: real payload"
  have h1: "request_queue ?w = request_text # []" by (simp add: empty_world_def)
  have h3: "decode_request sample_lib request_text = Inr ?r" by (rule sample_decode)
  have h4: "build_payload sample_lib (r_lon ?r) (r_lat ?r) (r_time_range ?r) (r_min_cloud ?r)
              (r_max_cloud ?r) = Inr ?p"
    using sample_payload by simp
  have hit: "http_post search_hit_env ?p = Response 200 (Inr (JObj [(''features'', JArr [scene])]))"
    by (simp add: search_hit_env_def calm_env_def)
  have calm: "http_post calm_env ?p = Response 200 (Inr (JObj [(''features'', JArr [])]))"
    by (simp add: calm_env_def empty_features_def)
  have bare: "http_post search_bare_env ?p = Response 200 (Inr (JObj []))"
    by (simp add: search_bare_env_def calm_env_def)
  have k: "''result:'' @ format_value sample_lib (r_request_id ?r) = ''result:abc''"
    by (simp add: format_value_def)
  have a: "cache (worker_tick sample_lib search_hit_env ?w) ''result:abc'' = Some (JArr [scene], 120)"
    using worker_caches_search_result [OF h1 request_text_nonempty h3 h4 hit,
        of "[(''features'', JArr [scene])]" "JArr [scene]"]
    unfolding k by simp
  have b: "cache (worker_tick sample_lib calm_env ?w) ''result:abc''
             = Some (JObj [(''message'', JStr ''not found'')], 120)"
    using worker_caches_search_result [OF h1 request_text_nonempty h3 h4 calm,
        of "[(''features'', JArr [])]" "JArr []"]
    unfolding k by simp
  have c: "cache (worker_tick sample_lib search_bare_env ?w) ''result:abc'' = Some (JNull, 120)"
    using worker_caches_search_result [OF h1 request_text_nonempty h3 h4 bare, of "[]"]
    unfolding k by simp
  show ?thesis using a b c by simp
qed

text \<open>
  Claim C9. For every popped queue entry that is not JSON, or lacks one of the six fields, or
  whose \<^verbatim>\<open>min_cloud\<close> or \<^verbatim>\<open>max_cloud\<close> is not convertible by \<^verbatim>\<open>int\<close>, the iteration ends
  normally with the exception logged, the cache is unchanged (no \<^verbatim>\<open>result:\<close> key is
  written), the entry is gone from the queue, and the loop goes on with the next iteration.
  (An entry that is the empty string is skipped before it is decoded: nothing is raised.)
\<close>

theorem worker_drops_malformed_entry:
  assumes "request_queue w = request_data # rest"
    and "json_loads L request_data = Inl e0 \<or>
         (\<exists>kvs. json_loads L request_data = Inr (JObj kvs) \<and>
            ((\<exists>k \<in> {''request_id'', ''lon'', ''lat'', ''min_cloud'', ''max_cloud'', ''time_range''}.
                 map_of kvs k = None) \<or>
             (\<exists>v e1. map_of kvs ''min_cloud'' = Some v \<and> py_int L v = Inl e1) \<or>
             (\<exists>v e2. map_of kvs ''max_cloud'' = Some v \<and> py_int L v = Inl e2)))"
  shows "(\<exists>e. worker_tick L E w =
              (if request_data = [] then w\<lparr>request_queue := rest\<rparr>
               else logging (ErrQueue e) (w\<lparr>request_queue := rest\<rparr>))) \<and>
         cache (worker_tick L E w) = cache w \<and>
         request_queue (worker_tick L E w) = rest \<and>
         worker L (E # Es) w = worker L Es (worker_tick L E w)"
proof -
  from decode_request_fails [OF assms(2)] obtain e
    where e: "decode_request L request_data = Inl e" by blast
  have tick: "worker_tick L E w =
              (if request_data = [] then w\<lparr>request_queue := rest\<rparr>
               else logging (ErrQueue e) (w\<lparr>request_queue := rest\<rparr>))"
    using assms(1) e by (simp add: worker_tick_def)
  then have "cache (worker_tick L E w) = cache w"
    and "request_queue (worker_tick L E w) = rest"
    by (simp_all add: cache_logging queue_logging)
  with tick show ?thesis by auto
qed

theorem worker_drops_malformed_entry_witness:
  "cache (worker_tick sample_lib calm_env (empty_world\<lparr>request_queue := [''not json'']\<rparr>))
     = cache (empty_world\<lparr>request_queue := [''not json'']\<rparr>) \<and>
   request_queue (worker_tick sample_lib calm_env (empty_world\<lparr>request_queue := [''not json'']\<rparr>))
     = [] \<and>
   cache (worker_tick sample_lib calm_env (empty_world\<lparr>request_queue := [no_range_text]\<rparr>))
     = cache (empty_world\<lparr>request_queue := [no_range_text]\<rparr>) \<and>
   cache (worker_tick sample_lib calm_env (empty_world\<lparr>request_queue := [cloudy_text]\<rparr>))
     = cache (empty_world\<lparr>request_queue := [cloudy_text]\<rparr>)"
proof -
  have q: "\<And>t. request_queue (empty_world\<lparr>request_queue := [t]\<rparr>) = t # []" by simp
  have a: "json_loads sample_lib ''not json'' = Inl JSONDecodeError \<or>
         (\<exists>kvs. json_loads sample_lib ''not json'' = Inr (JObj kvs) \<and>
            ((\<exists>k \<in> {''request_id'', ''lon'', ''lat'', ''min_cloud'', ''max_cloud'', ''time_range''}.
                 map_of kvs k = None) \<or>
             (\<exists>v e1. map_of kvs ''min_cloud'' = Some v \<and> py_int sample_lib v = Inl e1) \<or>
             (\<exists>v e2. map_of kvs ''max_cloud'' = Some v \<and> py_int sample_lib v = Inl e2)))"
    by (simp add: sample_loads_simps)
  have b: "json_loads sample_lib no_range_text = Inl JSONDecodeError \<or>
         (\<exists>kvs. json_loads sample_lib no_range_text = Inr (JObj kvs) \<and>
            ((\<exists>k \<in> {''request_id'', ''lon'', ''lat'', ''min_cloud'', ''max_cloud'', ''time_range''}.
                 map_of kvs k = None) \<or>
             (\<exists>v e1. map_of kvs ''min_cloud'' = Some v \<and> py_int sample_lib v = Inl e1) \<or>
             (\<exists>v e2. map_of kvs ''max_cloud'' = Some v \<and> py_int sample_lib v = Inl e2)))"
    by (simp add: sample_loads_simps no_range_doc_def)
  have low: "py_int sample_lib (JStr ''low'') = Inl ValueError"
    by (simp add: sample_lib_def sample_int_def)
  have c: "json_loads sample_lib cloudy_text = Inl JSONDecodeError \<or>
         (\<exists>kvs. json_loads sample_lib cloudy_text = Inr (JObj kvs) \<and>
            ((\<exists>k \<in> {''request_id'', ''lon'', ''lat'', ''min_cloud'', ''max_cloud'', ''time_range''}.
                 map_of kvs k = None) \<or>
             (\<exists>v e1. map_of kvs ''min_cloud'' = Some v \<and> py_int sample_lib v = Inl e1) \<or>
             (\<exists>v e2. map_of kvs ''max_cloud'' = Some v \<and> py_int sample_lib v = Inl e2)))"
    using low by (simp add: sample_loads_simps cloudy_doc_def)
  show ?thesis
    using worker_drops_malformed_entry [OF q a, of calm_env "[]"]
      worker_drops_malformed_entry [OF q b, of calm_env "[]"]
      worker_drops_malformed_entry [OF q c, of calm_env "[]"]
    by simp
qed

section \<open>Claims about the acquisition scheduler\<close>






text \<open>
  Claim C4, as stated, says that malformed persisted progress is treated as no progress. With
  the row \<^verbatim>\<open>('Landsat-8', 'yesterday')\<close> stored, the cycle ends with the ValueError of
  \<^verbatim>\<open>strptime\<close>, which nothing catches.
\<close>

theorem malformed_progress_counterexample:
  "fst (fetch_and_save_data sample_lib [calm_env]
          (empty_world\<lparr>progress := [(''Landsat-8'', ''yesterday'')]\<rparr>)) = Some ValueError"
  by (simp add: SATELLITES_def satellite_window_def resolve_start_def get_the_last_date_def
      select_last_def calm_env_def sample_lib_def sample_strptime_def empty_world_def)

text \<open>
  Claim C4, amended. When reading the progress of a satellite raises, \<open>get_the_last_date\<close>
  logs the exception and returns \<^verbatim>\<open>None\<close>; when the satellite has no row it returns
  \<^verbatim>\<open>None\<close>; in both cases, and when the stored value is the empty string, the window starts
  at the current time and, the clock being at least 100 days before 9999-12-31, nothing is
  raised. A stored non-empty value that \<^verbatim>\<open>strptime\<close> rejects is not tolerated: the exception
  leaves the window before any probe.
\<close>

theorem progress_fallback:
  "(db_read_error E satellite = Some e \<longrightarrow>
      get_the_last_date E satellite w = (None, logging (ErrLastDate satellite e) w) \<and>
      fst (resolve_start L E satellite w) = Inr (now E satellite) \<and>
      (1 \<le> ordinal (now E satellite) \<and> ordinal (now E satellite) + 100 \<le> 3652059 \<longrightarrow>
         fst (satellite_window L E satellite w) = None)) \<and>
   (db_read_error E satellite = None \<and> satellite \<notin> fst ` set (progress w) \<longrightarrow>
      get_the_last_date E satellite w = (None, w) \<and>
      fst (resolve_start L E satellite w) = Inr (now E satellite) \<and>
      (1 \<le> ordinal (now E satellite) \<and> ordinal (now E satellite) + 100 \<le> 3652059 \<longrightarrow>
         fst (satellite_window L E satellite w) = None)) \<and>
   (db_read_error E satellite = None \<and> select_last (progress w) satellite = Some [] \<longrightarrow>
      fst (resolve_start L E satellite w) = Inr (now E satellite) \<and>
      (1 \<le> ordinal (now E satellite) \<and> ordinal (now E satellite) + 100 \<le> 3652059 \<longrightarrow>
         fst (satellite_window L E satellite w) = None)) \<and>
   (db_read_error E satellite = None \<and> select_last (progress w) satellite = Some D \<and>
      D \<noteq> [] \<and> strptime L D = Inl e' \<longrightarrow>
      satellite_window L E satellite w = (Some e', w))"
proof -
  have win: "fst (satellite_window L E satellite w) = None"
    if "fst (resolve_start L E satellite w) = Inr (now E satellite)"
      and "1 \<le> ordinal (now E satellite) \<and> ordinal (now E satellite) + 100 \<le> 3652059"
  proof -
    from that(2) have "1 \<le> ordinal (now E satellite)"
      and "ordinal (now E satellite) + 100 \<le> max_ordinal"
      by (simp_all add: max_ordinal_def)
    from window_probes [OF that(1) this] show ?thesis by simp
  qed
  have c1: "get_the_last_date E satellite w = (None, logging (ErrLastDate satellite e) w) \<and>
            fst (resolve_start L E satellite w) = Inr (now E satellite)"
    if "db_read_error E satellite = Some e"
    using that by (simp add: get_the_last_date_def resolve_start_def)
  have c2: "get_the_last_date E satellite w = (None, w) \<and>
            fst (resolve_start L E satellite w) = Inr (now E satellite)"
    if "db_read_error E satellite = None \<and> satellite \<notin> fst ` set (progress w)"
    using that by (simp add: get_the_last_date_def resolve_start_def select_last_Max)
  have c3: "fst (resolve_start L E satellite w) = Inr (now E satellite)"
    if "db_read_error E satellite = None \<and> select_last (progress w) satellite = Some []"
    using that by (simp add: get_the_last_date_def resolve_start_def)
  have c4: "satellite_window L E satellite w = (Some e', w)"
    if "db_read_error E satellite = None \<and> select_last (progress w) satellite = Some D \<and>
        D \<noteq> [] \<and> strptime L D = Inl e'"
    using that by (simp add: satellite_window_def get_the_last_date_def resolve_start_def)
  show ?thesis using c1 c2 c3 c4 win by - (intro conjI impI, simp_all)
qed

theorem progress_fallback_witness:
  "fst (resolve_start sample_lib db_down_env ''Landsat-8''
          (empty_world\<lparr>progress := [(''Landsat-8'', ''2024-03-04 00:00:00'')]\<rparr>))
     = Inr (now db_down_env ''Landsat-8'') \<and>
   fst (satellite_window sample_lib db_down_env ''Landsat-8''
          (empty_world\<lparr>progress := [(''Landsat-8'', ''2024-03-04 00:00:00'')]\<rparr>)) = None \<and>
   fst (resolve_start sample_lib calm_env ''Landsat-8'' empty_world)
     = Inr (now calm_env ''Landsat-8'') \<and>
   fst (satellite_window sample_lib calm_env ''Landsat-8'' empty_world) = None \<and>
   fst (resolve_start sample_lib calm_env ''Landsat-8''
          (empty_world\<lparr>progress := [(''Landsat-8'', [])]\<rparr>))
     = Inr (now calm_env ''Landsat-8'') \<and>
   fst (satellite_window sample_lib calm_env ''Landsat-8''
          (empty_world\<lparr>progress := [(''Landsat-8'', [])]\<rparr>)) = None \<and>
   satellite_window sample_lib calm_env ''Landsat-8''
          (empty_world\<lparr>progress := [(''Landsat-8'', ''yesterday'')]\<rparr>)
     = (Some ValueError, empty_world\<lparr>progress := [(''Landsat-8'', ''yesterday'')]\<rparr>)"
proof -
  have a: "db_read_error db_down_env ''Landsat-8'' = Some OperationalError"
    by (simp add: db_down_env_def calm_env_def)
  have b: "db_read_error calm_env ''Landsat-8'' = None \<and>
           ''Landsat-8'' \<notin> fst ` set (progress empty_world)"
    by (simp add: calm_env_def empty_world_def)
  have c: "db_read_error calm_env ''Landsat-8'' = None \<and>
           select_last (progress (empty_world\<lparr>progress := [(''Landsat-8'', [])]\<rparr>)) ''Landsat-8''
             = Some []"
    by (simp add: calm_env_def select_last_def)
  have d: "db_read_error calm_env ''Landsat-8'' = None \<and>
           select_last (progress (empty_world\<lparr>progress := [(''Landsat-8'', ''yesterday'')]\<rparr>))
             ''Landsat-8'' = Some ''yesterday'' \<and>
           ''yesterday'' \<noteq> [] \<and> strptime sample_lib ''yesterday'' = Inl ValueError"
    by (simp add: calm_env_def select_last_def sample_lib_def sample_strptime_def)
  have n1: "1 \<le> ordinal (now db_down_env ''Landsat-8'') \<and>
            ordinal (now db_down_env ''Landsat-8'') + 100 \<le> 3652059"
    by (simp add: db_down_env_def calm_env_def)
  have n2: "1 \<le> ordinal (now calm_env ''Landsat-8'') \<and>
            ordinal (now calm_env ''Landsat-8'') + 100 \<le> 3652059"
    by (simp add: calm_env_def)
  have r1: "fst (resolve_start sample_lib db_down_env ''Landsat-8''
          (empty_world\<lparr>progress := [(''Landsat-8'', ''2024-03-04 00:00:00'')]\<rparr>))
     = Inr (now db_down_env ''Landsat-8'') \<and>
     fst (satellite_window sample_lib db_down_env ''Landsat-8''
          (empty_world\<lparr>progress := [(''Landsat-8'', ''2024-03-04 00:00:00'')]\<rparr>)) = None"
    using a n1 progress_fallback [of db_down_env "''Landsat-8''" OperationalError
        "empty_world\<lparr>progress := [(''Landsat-8'', ''2024-03-04 00:00:00'')]\<rparr>" sample_lib]
    by blast
  have r2: "fst (resolve_start sample_lib calm_env ''Landsat-8'' empty_world)
     = Inr (now calm_env ''Landsat-8'') \<and>
     fst (satellite_window sample_lib calm_env ''Landsat-8'' empty_world) = None"
    using b n2 progress_fallback [of calm_env "''Landsat-8''" _ empty_world sample_lib]
    by blast
  have r3: "fst (resolve_start sample_lib calm_env ''Landsat-8''
          (empty_world\<lparr>progress := [(''Landsat-8'', [])]\<rparr>))
     = Inr (now calm_env ''Landsat-8'') \<and>
     fst (satellite_window sample_lib calm_env ''Landsat-8''
          (empty_world\<lparr>progress := [(''Landsat-8'', [])]\<rparr>)) = None"
    using c n2 progress_fallback [of calm_env "''Landsat-8''" _
        "empty_world\<lparr>progress := [(''Landsat-8'', [])]\<rparr>" sample_lib]
    by blast
  have r4: "satellite_window sample_lib calm_env ''Landsat-8''
          (empty_world\<lparr>progress := [(''Landsat-8'', ''yesterday'')]\<rparr>)
     = (Some ValueError, empty_world\<lparr>progress := [(''Landsat-8'', ''yesterday'')]\<rparr>)"
    using d progress_fallback [of calm_env "''Landsat-8''" _
        "empty_world\<lparr>progress := [(''Landsat-8'', ''yesterday'')]\<rparr>" sample_lib
        "''yesterday''" ValueError]
    by blast
  show ?thesis using r1 r2 r3 r4 by blast
qed

text \<open>
  Claim C8. The cache key of a probe is the cursor's calendar day alone. When two
  satellites are probed on the same day and both probes find features, the first write puts
  the first satellite's features under that day and the second write replaces them with the
  second satellite's, under the same key, both with an expiry of 1814400 seconds.
\<close>

theorem cache_key_shared_by_satellites:
  assumes "http_get E \<lparr>p_api_key = API_KEY E, p_satellites = satellite1,
                       p_datetime = fmt_day L (ordinal date1) @ ''T00:00:00Z''\<rparr>
             = Response 200 (Inr (JObj kvs1))"
    and "map_of kvs1 ''features'' = Some features1" and "truthy L features1"
    and "http_get E \<lparr>p_api_key = API_KEY E, p_satellites = satellite2,
                       p_datetime = fmt_day L (ordinal date2) @ ''T00:00:00Z''\<rparr>
             = Response 200 (Inr (JObj kvs2))"
    and "map_of kvs2 ''features'' = Some features2" and "truthy L features2"
    and "ordinal date1 = ordinal date2"
  shows "cache (probe L E satellite1 date1 w) =
           (cache w)(fmt_day L (ordinal date1) \<mapsto> (features1, 1814400)) \<and>
         cache (probe L E satellite2 date2 (probe L E satellite1 date1 w)) =
           (cache w)(fmt_day L (ordinal date1) \<mapsto> (features2, 1814400))"
  using cache_probe_hit [OF assms(1,2,3), of w]
    cache_probe_hit [OF assms(4,5,6), of "probe L E satellite1 date1 w"] assms(7)
  by (simp add: feature_ttl_def)

theorem cache_key_shared_by_satellites_witness:
  "cache (probe sample_lib plan_hit_env ''Landsat-8'' march_5 empty_world)
     = (cache empty_world)(''2024-03-05'' \<mapsto> (JArr [JStr ''Landsat-8''], 1814400)) \<and>
   cache (probe sample_lib plan_hit_env ''Landsat-9'' march_5
            (probe sample_lib plan_hit_env ''Landsat-8'' march_5 empty_world))
     = (cache empty_world)(''2024-03-05'' \<mapsto> (JArr [JStr ''Landsat-9''], 1814400))"
proof -
  let ?d = "march_5"
  have d: "ordinal ?d = 738950"
    by (simp add: march_5_def)
  have h8: "http_get plan_hit_env \<lparr>p_api_key = API_KEY plan_hit_env, p_satellites = ''Landsat-8'',
                 p_datetime = fmt_day sample_lib (ordinal ?d) @ ''T00:00:00Z''\<rparr>
               = Response 200 (Inr (JObj [(''features'', JArr [JStr ''Landsat-8''])]))"
    by (simp add: plan_hit_env_def calm_env_def)
  have h9: "http_get plan_hit_env \<lparr>p_api_key = API_KEY plan_hit_env, p_satellites = ''Landsat-9'',
                 p_datetime = fmt_day sample_lib (ordinal ?d) @ ''T00:00:00Z''\<rparr>
               = Response 200 (Inr (JObj [(''features'', JArr [JStr ''Landsat-9''])]))"
    by (simp add: plan_hit_env_def calm_env_def)
  have f8: "map_of [(''features'', JArr [JStr ''Landsat-8''] :: real json)] ''features''
              = Some (JArr [JStr ''Landsat-8''])"
    by simp
  have f9: "map_of [(''features'', JArr [JStr ''Landsat-9''] :: real json)] ''features''
              = Some (JArr [JStr ''Landsat-9''])"
    by simp
  have t8: "truthy sample_lib (JArr [JStr ''Landsat-8''])" by simp
  have t9: "truthy sample_lib (JArr [JStr ''Landsat-9''])" by simp
  show ?thesis
    using cache_key_shared_by_satellites [OF h8 f8 t8 h9 f9 t9 refl, of empty_world]
    by (simp add: d sample_day)
qed

end
